theory Spec2Isabelle
  imports Main
begin

section \<open>Feed screens of the client: ReactionsFeed and NotificationsFeed\<close>

text \<open>
  The two React components \<^verbatim>\<open>src/frontend/Pages/ReactionsFeed/index.tsx\<close> and
  \<^verbatim>\<open>src/frontend/Pages/NotificationsFeed/index.tsx\<close> are embedded as pure functions.

  \<^item> The component state (the \<^verbatim>\<open>useState\<close> cells \<^verbatim>\<open>notes\<close> (here \<open>notes_state\<close>), \<^verbatim>\<open>pageSize\<close>,
    \<^verbatim>\<open>refreshing\<close>) is a record that every handler takes and returns.
  \<^item> The values a handler reads are those of the render that created it: the context
    values (\<^verbatim>\<open>database\<close>, \<^verbatim>\<open>publicKey\<close>, \<^verbatim>\<open>relayPool\<close>) and the state of that
    render. They are passed as a pair, the \<^emph>\<open>render\<close>. An effect and \<^verbatim>\<open>onScroll\<close> are
    re-created by every render, so they run with the current render; \<^verbatim>\<open>onRefresh\<close> is
    wrapped in \<^verbatim>\<open>useCallback(..., [])\<close> and keeps the render of the mount.
  \<^item> The calls made on the relay pool are returned as a list, in call order. A call
    through \<^verbatim>\<open>relayPool?.\<close> is dropped when the pool is absent.
  \<^item> A database query is a promise; its \<^verbatim>\<open>.then\<close> callback runs when it resolves and
    never when it rejects. A handler's result is the state once its promises have
    settled; the synchronous prefix of \<^verbatim>\<open>onRefresh\<close> is given separately.
  \<^item> \<^verbatim>\<open>pageSize\<close> is a JavaScript number that only ever holds \<open>10 + 10 * k\<close>; it is a
    natural number here (exact in a double below \<open>2 ^ 53\<close>).
\<close>

subsection \<open>Data\<close>

datatype 'a promise = Resolved 'a | Rejected

text \<open>The event kinds the two files name: \<^verbatim>\<open>Kind.*\<close> of nostr-tools and \<^verbatim>\<open>EventKind.*\<close>.\<close>

datatype kind =
  Kind_Metadata | Kind_Text | Kind_Reaction
  | EventKind_meta | EventKind_textNote | EventKind_reaction

text \<open>
  A \<^verbatim>\<open>Note\<close>, with the fields the two components read. Each is read through \<^verbatim>\<open>??\<close> or
  a truthiness test, so each may be undefined (\<open>None\<close>).
\<close>

record Note =
  id_note :: "string option"
  pubkey :: "string option"
  repost_id :: "string option"
  created_at :: "nat option"

record reaction =
  created_at_reaction :: "nat option"

text \<open>\<^verbatim>\<open>RelayFilters\<close>: every key is optional but \<^verbatim>\<open>kinds\<close>; \<^verbatim>\<open>'#e'\<close> and \<^verbatim>\<open>'#p'\<close> are
  \<open>tag_e\<close> and \<open>tag_p\<close>. NotificationsFeed puts \<^verbatim>\<open>note.pubkey\<close> into \<^verbatim>\<open>authors\<close> as it
  is, so an entry of \<^verbatim>\<open>authors\<close> may be undefined.\<close>

record relay_filters =
  kinds :: "kind list"
  authors :: "string option list option"
  tag_e :: "string list option"
  tag_p :: "string list option"
  ids :: "string list option"
  since :: "nat option"
  limit :: "nat option"

definition filter_of_kinds :: "kind list \<Rightarrow> relay_filters" where
  "filter_of_kinds ks =
     \<lparr>kinds = ks, authors = None, tag_e = None, tag_p = None, ids = None,
      since = None, limit = None\<rparr>"

datatype pool_call =
  Subscribe string "relay_filters list"
  | Unsubscribe "string list"
  | UnsubscribeAll

text \<open>The database functions the components import, as the queries of a database.\<close>

record store =
  getReactedNotes :: "string \<Rightarrow> nat \<Rightarrow> Note list promise"
  getLastReaction :: "string list \<Rightarrow> reaction option promise"
  getLastReply :: "string list \<Rightarrow> Note option promise"
  getMentionNotes :: "string \<Rightarrow> nat \<Rightarrow> Note list promise"

record props =
  database :: "store option"
  publicKey :: "string option"
  relayPool :: bool

record state =
  notes_state :: "Note list"
  pageSize :: nat
  refreshing :: bool

type_synonym render = "props \<times> state"

type_synonym outcome = "state \<times> pool_call list"

subsection \<open>JavaScript operators\<close>

text \<open>Truthiness of a string that may be undefined: the empty string is falsy.\<close>

definition truthy :: "string option \<Rightarrow> bool" where
  "truthy x = (case x of None \<Rightarrow> False | Some s \<Rightarrow> s \<noteq> [])"

text \<open>\<^verbatim>\<open>x ?? d\<close>\<close>

definition nullish :: "'a option \<Rightarrow> 'a \<Rightarrow> 'a" where
  "nullish x d = (case x of None \<Rightarrow> d | Some v \<Rightarrow> v)"

text \<open>\<^verbatim>\<open>relayPool?.f(...)\<close>\<close>

definition pool_call_opt :: "props \<Rightarrow> pool_call \<Rightarrow> pool_call list" where
  "pool_call_opt p c = (if relayPool p then [c] else [])"

text \<open>One statement after another: the state is threaded, the pool calls are appended.\<close>

definition and_then :: "(state \<Rightarrow> outcome) \<Rightarrow> (state \<Rightarrow> outcome) \<Rightarrow> state \<Rightarrow> outcome" where
  "and_then f g s = (case f s of (s1, t1) \<Rightarrow> (case g s1 of (s2, t2) \<Rightarrow> (s2, t1 @ t2)))"

definition initialPageSize :: nat where
  "initialPageSize = 10"

subsection \<open>ReactionsFeed\<close>

definition ReactionsFeed_initial :: state where
  "ReactionsFeed_initial = \<lparr>notes_state = [], pageSize = initialPageSize, refreshing = False\<rparr>"

definition ReactionsFeed_channels :: "string list" where
  "ReactionsFeed_channels =
     [''homepage-contacts-main'', ''homepage-contacts-meta'', ''homepage-contacts-replies'',
      ''homepage-contacts-reactions'', ''homepage-contacts-repost'']"

definition ReactionsFeed_unsubscribe :: "render \<Rightarrow> state \<Rightarrow> outcome" where
  "ReactionsFeed_unsubscribe r s =
     (s, pool_call_opt (fst r) (Unsubscribe ReactionsFeed_channels))"

definition ReactionsFeed_subscribeNotes :: "render \<Rightarrow> state \<Rightarrow> outcome" where
  "ReactionsFeed_subscribeNotes r s =
     (if database (fst r) = None \<or> \<not> truthy (publicKey (fst r)) then (s, [])
      else
        (s\<lparr>refreshing := False\<rparr>,
         pool_call_opt (fst r)
           (Subscribe ''homepage-contacts-main''
              [(filter_of_kinds [Kind_Reaction])
                 \<lparr>authors := Some [publicKey (fst r)],
                  limit := Some (pageSize (snd r))\<rparr>])))"

definition ReactionsFeed_onScroll :: "render \<Rightarrow> bool \<Rightarrow> state \<Rightarrow> state" where
  "ReactionsFeed_onScroll r handleInfinityScroll s =
     (if handleInfinityScroll then s\<lparr>pageSize := pageSize (snd r) + initialPageSize\<rparr> else s)"

text \<open>The body of the \<^verbatim>\<open>.then\<close> callback of \<^verbatim>\<open>loadNotes\<close> under \<^verbatim>\<open>notes.length > 0\<close>:
  the calls on the pool, cut short at the first \<^verbatim>\<open>await\<close> that rejects.\<close>

definition ReactionsFeed_enrich :: "props \<Rightarrow> store \<Rightarrow> Note list \<Rightarrow> pool_call list" where
  "ReactionsFeed_enrich p db ns =
     (let noteIds = map (\<lambda>n. nullish (id_note n) '''') ns;
          meta = pool_call_opt p
            (Subscribe ''homepage-contacts-meta''
               [(filter_of_kinds [Kind_Metadata])
                  \<lparr>authors := Some (map (\<lambda>n. Some (nullish (pubkey n) '''')) ns)\<rparr>])
      in
        (case getLastReaction db (map (\<lambda>n. nullish (id_note n) '''') ns) of
           Rejected \<Rightarrow> meta
         | Resolved lastReaction \<Rightarrow>
             (let reactions = pool_call_opt p
                    (Subscribe ''homepage-contacts-reactions''
                       [(filter_of_kinds [Kind_Reaction])
                          \<lparr>tag_e := Some noteIds,
                           since := Some
                             (case lastReaction of None \<Rightarrow> 0
                              | Some l \<Rightarrow> nullish (created_at_reaction l) 0)\<rparr>])
              in
                (case getLastReply db (map (\<lambda>n. nullish (id_note n) '''') ns) of
                   Rejected \<Rightarrow> meta @ reactions
                 | Resolved lastReply \<Rightarrow>
                     (let replies = pool_call_opt p
                            (Subscribe ''homepage-contacts-replies''
                               [(filter_of_kinds [Kind_Text])
                                  \<lparr>tag_e := Some noteIds,
                                   since := Some
                                     (case lastReply of None \<Rightarrow> 0
                                      | Some l \<Rightarrow> nullish (created_at l) 0)\<rparr>]);
                          repostIds =
                            map (\<lambda>n. nullish (repost_id n) '''')
                              (filter (\<lambda>n. truthy (repost_id n)) ns)
                      in
                        meta @ reactions @ replies @
                        (if length repostIds > 0
                         then pool_call_opt p
                           (Subscribe ''homepage-contacts-repost''
                              [(filter_of_kinds [Kind_Text])\<lparr>ids := Some repostIds\<rparr>])
                         else []))))))"

definition ReactionsFeed_loadNotes :: "render \<Rightarrow> state \<Rightarrow> outcome" where
  "ReactionsFeed_loadNotes r s =
     (case database (fst r) of
        None \<Rightarrow> (s, [])
      | Some db \<Rightarrow>
          (if \<not> truthy (publicKey (fst r)) then (s, [])
           else
             (case getReactedNotes db (nullish (publicKey (fst r)) '''') (pageSize (snd r)) of
                Rejected \<Rightarrow> (s, [])
              | Resolved ns \<Rightarrow>
                  (s\<lparr>notes_state := ns\<rparr>,
                   if length ns > 0 then ReactionsFeed_enrich (fst r) db ns else []))))"

text \<open>\<^verbatim>\<open>useEffect(() => { unsubscribe(); subscribeNotes(); loadNotes() }, [])\<close>\<close>

definition ReactionsFeed_useEffect_mount :: "render \<Rightarrow> state \<Rightarrow> outcome" where
  "ReactionsFeed_useEffect_mount r =
     and_then (ReactionsFeed_unsubscribe r)
       (and_then (ReactionsFeed_subscribeNotes r) (ReactionsFeed_loadNotes r))"


text \<open>\<^verbatim>\<open>useEffect(..., [pageSize])\<close>\<close>

definition ReactionsFeed_useEffect_pageSize :: "render \<Rightarrow> state \<Rightarrow> outcome" where
  "ReactionsFeed_useEffect_pageSize r s =
     (if pageSize (snd r) > initialPageSize then ReactionsFeed_subscribeNotes r s else (s, []))"

text \<open>\<^verbatim>\<open>onRefresh\<close>; \<open>r\<close> is the render that created the callback.\<close>

definition ReactionsFeed_onRefresh :: "render \<Rightarrow> state \<Rightarrow> outcome" where
  "ReactionsFeed_onRefresh r =
     and_then (\<lambda>s. (s\<lparr>refreshing := True\<rparr>, []))
       (and_then (ReactionsFeed_unsubscribe r) (ReactionsFeed_subscribeNotes r))"

text \<open>A scroll event that crosses the threshold, then the render it causes and the
  \<^verbatim>\<open>[pageSize]\<close> effect of that render.\<close>

definition ReactionsFeed_onPageGrowthTrigger :: "props \<Rightarrow> state \<Rightarrow> outcome" where
  "ReactionsFeed_onPageGrowthTrigger p s =
     (let s1 = ReactionsFeed_onScroll (p, s) True s
      in ReactionsFeed_useEffect_pageSize (p, s1) s1)"

subsection \<open>NotificationsFeed\<close>

definition NotificationsFeed_initial :: state where
  "NotificationsFeed_initial = \<lparr>notes_state = [], pageSize = initialPageSize, refreshing = True\<rparr>"

definition NotificationsFeed_subscribeNotes :: "render \<Rightarrow> state \<Rightarrow> outcome" where
  "NotificationsFeed_subscribeNotes r s =
     (if database (fst r) = None \<or> \<not> truthy (publicKey (fst r)) then (s, [])
      else
        (s,
         pool_call_opt (fst r)
           (Subscribe ''mentions-user''
              [(filter_of_kinds [EventKind_textNote])
                 \<lparr>tag_p := Some [nullish (publicKey (fst r)) ''''],
                  limit := Some (pageSize (snd r))\<rparr>,
               (filter_of_kinds [EventKind_textNote])
                 \<lparr>tag_e := Some [nullish (publicKey (fst r)) ''''],
                  limit := Some (pageSize (snd r))\<rparr>])))"

definition NotificationsFeed_calculateInitialNotes :: "render \<Rightarrow> state \<Rightarrow> outcome" where
  "NotificationsFeed_calculateInitialNotes r s =
     (if database (fst r) \<noteq> None \<and> truthy (publicKey (fst r))
      then NotificationsFeed_subscribeNotes r s else (s, []))"

definition NotificationsFeed_loadNotes :: "render \<Rightarrow> state \<Rightarrow> outcome" where
  "NotificationsFeed_loadNotes r s =
     (case database (fst r) of
        None \<Rightarrow> (s, [])
      | Some db \<Rightarrow>
          (if \<not> truthy (publicKey (fst r)) then (s, [])
           else
             (case getMentionNotes db (nullish (publicKey (fst r)) '''') (pageSize (snd r)) of
                Rejected \<Rightarrow> (s, [])
              | Resolved ns \<Rightarrow>
                  (s\<lparr>notes_state := ns, refreshing := False\<rparr>,
                   pool_call_opt (fst r)
                     (Subscribe ''mentions-answers''
                        [(filter_of_kinds [EventKind_reaction])
                           \<lparr>tag_e := Some (map (\<lambda>n. nullish (id_note n) '''') ns)\<rparr>,
                         (filter_of_kinds [EventKind_meta])
                           \<lparr>authors := Some (map pubkey ns)\<rparr>])))))"



text \<open>\<^verbatim>\<open>useEffect(..., [pageSize])\<close>\<close>

definition NotificationsFeed_useEffect_pageSize :: "render \<Rightarrow> state \<Rightarrow> outcome" where
  "NotificationsFeed_useEffect_pageSize r s =
     (if pageSize (snd r) > initialPageSize
      then and_then (\<lambda>s. (s, pool_call_opt (fst r) UnsubscribeAll))
             (and_then (NotificationsFeed_subscribeNotes r) (NotificationsFeed_loadNotes r)) s
      else (s, []))"

text \<open>\<^verbatim>\<open>onRefresh\<close> up to its return: the promise of \<^verbatim>\<open>calculateInitialNotes\<close> is
  created (and its body has run), the \<^verbatim>\<open>.then\<close> callback has not.\<close>

definition NotificationsFeed_onRefresh_sync :: "render \<Rightarrow> state \<Rightarrow> outcome" where
  "NotificationsFeed_onRefresh_sync r =
     and_then (\<lambda>s. (s\<lparr>refreshing := True\<rparr>, pool_call_opt (fst r) UnsubscribeAll))
       (\<lambda>s. if relayPool (fst r) \<and> truthy (publicKey (fst r))
            then NotificationsFeed_calculateInitialNotes r s else (s, []))"

definition NotificationsFeed_onRefresh :: "render \<Rightarrow> state \<Rightarrow> outcome" where
  "NotificationsFeed_onRefresh r =
     and_then (NotificationsFeed_onRefresh_sync r)
       (\<lambda>s. if relayPool (fst r) \<and> truthy (publicKey (fst r))
            then NotificationsFeed_loadNotes r s else (s, []))"

definition NotificationsFeed_onScroll :: "render \<Rightarrow> bool \<Rightarrow> state \<Rightarrow> state" where
  "NotificationsFeed_onScroll r handleInfinityScroll s =
     (if handleInfinityScroll then s\<lparr>pageSize := pageSize (snd r) + initialPageSize\<rparr> else s)"

definition NotificationsFeed_onPageGrowthTrigger :: "props \<Rightarrow> state \<Rightarrow> outcome" where
  "NotificationsFeed_onPageGrowthTrigger p s =
     (let s1 = NotificationsFeed_onScroll (p, s) True s
      in NotificationsFeed_useEffect_pageSize (p, s1) s1)"

subsection \<open>Observations on a run\<close>

text \<open>The values of \<^verbatim>\<open>pageSize\<close> along a run of scroll events, each handled by the
  \<^verbatim>\<open>onScroll\<close> of the render that follows the previous event. The boolean of an event
  is the value of \<^verbatim>\<open>handleInfinityScroll(event)\<close>.\<close>

fun pageSizes :: "(render \<Rightarrow> bool \<Rightarrow> state \<Rightarrow> state) \<Rightarrow> props \<Rightarrow> state \<Rightarrow> bool list \<Rightarrow> nat list" where
  "pageSizes onScroll p s [] = [pageSize s]"
| "pageSizes onScroll p s (e # es) = pageSize s # pageSizes onScroll p (onScroll (p, s) e s) es"

text \<open>The channel names of the subscriptions a list of pool calls issues, in order.\<close>

fun issued :: "pool_call list \<Rightarrow> string list" where
  "issued [] = []"
| "issued (Subscribe n fs # cs) = n # issued cs"
| "issued (Unsubscribe ns # cs) = issued cs"
| "issued (UnsubscribeAll # cs) = issued cs"

text \<open>The \<^verbatim>\<open>authors\<close> entries of the filters sent under a channel name.\<close>

fun authors_issued :: "string \<Rightarrow> pool_call list \<Rightarrow> string option list" where
  "authors_issued n [] = []"
| "authors_issued n (Subscribe m fs # cs) =
     (if m = n then concat (map (\<lambda>f. nullish (authors f) []) fs) else []) @
     authors_issued n cs"
| "authors_issued n (Unsubscribe ns # cs) = authors_issued n cs"
| "authors_issued n (UnsubscribeAll # cs) = authors_issued n cs"



text \<open>Along a list of pool calls, channel \<open>n\<close> is never issued while the calls so far
  leave it live: every \<^verbatim>\<open>subscribe\<close> under \<open>n\<close> but the first follows a call that
  retires \<open>n\<close>. \<open>live\<close> says whether \<open>n\<close> is live before the first call.\<close>

fun retired_before_reissue :: "string \<Rightarrow> bool \<Rightarrow> pool_call list \<Rightarrow> bool" where
  "retired_before_reissue n live [] = True"
| "retired_before_reissue n live (Subscribe m fs # cs) =
     (if m = n then \<not> live \<and> retired_before_reissue n True cs
      else retired_before_reissue n live cs)"
| "retired_before_reissue n live (Unsubscribe ms # cs) =
     retired_before_reissue n (live \<and> n \<notin> set ms) cs"
| "retired_before_reissue n live (UnsubscribeAll # cs) = retired_before_reissue n False cs"

subsection \<open>Concrete inputs\<close>

text \<open>A database that holds the notes \<open>ns\<close> and no reaction or reply to them, a viewer
  with the public key \<open>A\<close> and a connected pool, and a viewer with no key yet.\<close>

definition store_of :: "Note list \<Rightarrow> store" where
  "store_of ns =
     \<lparr>getReactedNotes = (\<lambda>pk n. Resolved (take n ns)),
      getLastReaction = (\<lambda>eventIds. Resolved None),
      getLastReply = (\<lambda>eventIds. Resolved None),
      getMentionNotes = (\<lambda>pk n. Resolved (take n ns))\<rparr>"

definition viewer :: "Note list \<Rightarrow> props" where
  "viewer ns = \<lparr>database = Some (store_of ns), publicKey = Some ''A'', relayPool = True\<rparr>"

text \<open>A database whose every query rejects, and the viewer \<open>A\<close> on it.\<close>

definition failing_store :: store where
  "failing_store =
     \<lparr>getReactedNotes = (\<lambda>pk n. Rejected),
      getLastReaction = (\<lambda>eventIds. Rejected),
      getLastReply = (\<lambda>eventIds. Rejected),
      getMentionNotes = (\<lambda>pk n. Rejected)\<rparr>"

definition viewer_failing :: props where
  "viewer_failing = \<lparr>database = Some failing_store, publicKey = Some ''A'', relayPool = True\<rparr>"

definition anonymous :: props where
  "anonymous = \<lparr>database = Some (store_of []), publicKey = None, relayPool = True\<rparr>"

definition note_of :: "string \<Rightarrow> string \<Rightarrow> string option \<Rightarrow> Note" where
  "note_of i a r = \<lparr>id_note = Some i, pubkey = Some a, repost_id = r, created_at = Some 0\<rparr>"

section \<open>Properties\<close>

subsection \<open>Shared facts\<close>

lemma pageSizes_length: "length (pageSizes f p s es) = Suc (length es)"
  by (induction es arbitrary: s) simp_all

lemma pageSizes_first: "pageSizes f p s es ! 0 = pageSize s"
  by (cases es) simp_all

lemma ReactionsFeed_pageSizes_step:
  "i < length es \<Longrightarrow>
     pageSizes ReactionsFeed_onScroll p s es ! Suc i =
       pageSizes ReactionsFeed_onScroll p s es ! i + (if es ! i then initialPageSize else 0)"
proof (induction es arbitrary: s i)
  case Nil
  then show ?case by simp
next
  case (Cons e es)
  show ?case
  proof (cases i)
    case 0
    then show ?thesis
      by (simp add: pageSizes_first ReactionsFeed_onScroll_def)
  next
    case (Suc j)
    with Cons.prems have "j < length es" by simp
    from Cons.IH [OF this] Suc show ?thesis by simp
  qed
qed

lemma NotificationsFeed_pageSizes_step:
  "i < length es \<Longrightarrow>
     pageSizes NotificationsFeed_onScroll p s es ! Suc i =
       pageSizes NotificationsFeed_onScroll p s es ! i + (if es ! i then initialPageSize else 0)"
proof (induction es arbitrary: s i)
  case Nil
  then show ?case by simp
next
  case (Cons e es)
  show ?case
  proof (cases i)
    case 0
    then show ?thesis
      by (simp add: pageSizes_first NotificationsFeed_onScroll_def)
  next
    case (Suc j)
    with Cons.prems have "j < length es" by simp
    from Cons.IH [OF this] Suc show ?thesis by simp
  qed
qed

lemma and_then_eq:
  "and_then f g s = (fst (g (fst (f s))), snd (f s) @ snd (g (fst (f s))))"
  by (simp add: and_then_def split: prod.splits)

lemma issued_append: "issued (xs @ ys) = issued xs @ issued ys"
  by (induction xs rule: issued.induct) simp_all

lemma issued_pool_call_opt_Subscribe:
  "issued (pool_call_opt p (Subscribe n fs)) = (if relayPool p then [n] else [])"
  by (simp add: pool_call_opt_def)

lemmas concrete_defs = viewer_def store_of_def note_of_def anonymous_def
  failing_store_def viewer_failing_def
  ReactionsFeed_initial_def NotificationsFeed_initial_def initialPageSize_def
  truthy_def nullish_def pool_call_opt_def Let_def

lemma ReactionsFeed_enrich_issued_le: "length (issued (ReactionsFeed_enrich p db ns)) \<le> 4"
  by (simp add: ReactionsFeed_enrich_def Let_def issued_append issued_pool_call_opt_Subscribe
      split: promise.splits)

lemma ReactionsFeed_enrich_issued:
  assumes "relayPool p"
    and "getLastReaction db (map (\<lambda>n. nullish (id_note n) '''') ns) = Resolved lastReaction"
    and "getLastReply db (map (\<lambda>n. nullish (id_note n) '''') ns) = Resolved lastReply"
  shows "issued (ReactionsFeed_enrich p db ns) =
     [''homepage-contacts-meta'', ''homepage-contacts-reactions'', ''homepage-contacts-replies''] @
     (if \<exists>n\<in>set ns. truthy (repost_id n) then [''homepage-contacts-repost''] else [])"
  using assms
  by (auto simp add: ReactionsFeed_enrich_def Let_def issued_append issued_pool_call_opt_Subscribe
      filter_empty_conv)

lemma ReactionsFeed_loadNotes_issued_le: "length (issued (snd (ReactionsFeed_loadNotes r s))) \<le> 4"
  using ReactionsFeed_enrich_issued_le
  by (simp add: ReactionsFeed_loadNotes_def split: option.splits promise.splits)

lemma NotificationsFeed_loadNotes_issued:
  "issued (snd (NotificationsFeed_loadNotes r s)) = [] \<or>
   issued (snd (NotificationsFeed_loadNotes r s)) = [''mentions-answers'']"
  by (simp add: NotificationsFeed_loadNotes_def issued_pool_call_opt_Subscribe
      split: option.splits promise.splits)

lemma ReactionsFeed_growth:
  assumes "database p \<noteq> None" and "truthy (publicKey p)" and "relayPool p" and "0 < pageSize s"
  shows "ReactionsFeed_onPageGrowthTrigger p s =
       (s\<lparr>pageSize := pageSize s + initialPageSize, refreshing := False\<rparr>,
        [Subscribe ''homepage-contacts-main''
           [(filter_of_kinds [Kind_Reaction])
              \<lparr>authors := Some [publicKey p],
               limit := Some (pageSize s + initialPageSize)\<rparr>]])"
  using assms
  by (simp add: ReactionsFeed_onPageGrowthTrigger_def ReactionsFeed_onScroll_def
      ReactionsFeed_useEffect_pageSize_def ReactionsFeed_subscribeNotes_def pool_call_opt_def
      Let_def)


lemma ReactionsFeed_onRefresh_eq:
  "ReactionsFeed_onRefresh r s =
     (if database (fst r) = None \<or> \<not> truthy (publicKey (fst r))
      then (s\<lparr>refreshing := True\<rparr>, pool_call_opt (fst r) (Unsubscribe ReactionsFeed_channels))
      else (s\<lparr>refreshing := False\<rparr>,
            pool_call_opt (fst r) (Unsubscribe ReactionsFeed_channels) @
            pool_call_opt (fst r)
              (Subscribe ''homepage-contacts-main''
                 [(filter_of_kinds [Kind_Reaction])
                    \<lparr>authors := Some [publicKey (fst r)],
                     limit := Some (pageSize (snd r))\<rparr>])))"
  by (simp add: ReactionsFeed_onRefresh_def ReactionsFeed_unsubscribe_def
      ReactionsFeed_subscribeNotes_def and_then_eq)

lemma NotificationsFeed_onRefresh_sync_eq:
  "NotificationsFeed_onRefresh_sync r s =
     (s\<lparr>refreshing := True\<rparr>,
      pool_call_opt (fst r) UnsubscribeAll @
      (if relayPool (fst r) \<and> truthy (publicKey (fst r)) \<and> database (fst r) \<noteq> None
       then [Subscribe ''mentions-user''
              [(filter_of_kinds [EventKind_textNote])
                 \<lparr>tag_p := Some [nullish (publicKey (fst r)) ''''],
                  limit := Some (pageSize (snd r))\<rparr>,
               (filter_of_kinds [EventKind_textNote])
                 \<lparr>tag_e := Some [nullish (publicKey (fst r)) ''''],
                  limit := Some (pageSize (snd r))\<rparr>]]
       else []))"
  by (simp add: NotificationsFeed_onRefresh_sync_def NotificationsFeed_calculateInitialNotes_def
      NotificationsFeed_subscribeNotes_def and_then_eq pool_call_opt_def)

lemma NotificationsFeed_loadNotes_pageSize:
  "pageSize (fst (NotificationsFeed_loadNotes r s)) = pageSize s"
  by (simp add: NotificationsFeed_loadNotes_def split: option.splits promise.splits)

lemma authors_issued_append:
  "authors_issued n (xs @ ys) = authors_issued n xs @ authors_issued n ys"
  by (induction n xs rule: authors_issued.induct) simp_all

lemma ReactionsFeed_enrich_authors:
  assumes "relayPool p"
  shows "authors_issued ''homepage-contacts-meta'' (ReactionsFeed_enrich p db ns) =
     map (\<lambda>n. Some (nullish (pubkey n) '''')) ns"
  using assms
  by (simp add: ReactionsFeed_enrich_def Let_def pool_call_opt_def authors_issued_append
      filter_of_kinds_def nullish_def split: promise.splits)

lemma NotificationsFeed_loadNotes_primary:
  "retired_before_reissue ''mentions-user'' live (snd (NotificationsFeed_loadNotes r s)) "
  by (simp add: NotificationsFeed_loadNotes_def pool_call_opt_def
      split: option.splits promise.splits)
























subsection \<open>Page growth\<close>

text \<open>
  Claim C10. Along any run made of page-growth triggers only (every scroll event crosses
  the threshold), in either feed, the successive values of \<open>pageSize\<close> never decrease and
  each one is the previous one plus \<open>initialPageSize\<close>, exactly.
\<close>

theorem pageSize_growth_exact:
  "sorted (pageSizes ReactionsFeed_onScroll p s (replicate n True)) \<and>
   sorted (pageSizes NotificationsFeed_onScroll p s (replicate n True)) \<and>
   (\<forall>i<n. pageSizes ReactionsFeed_onScroll p s (replicate n True) ! Suc i =
            pageSizes ReactionsFeed_onScroll p s (replicate n True) ! i + initialPageSize) \<and>
   (\<forall>i<n. pageSizes NotificationsFeed_onScroll p s (replicate n True) ! Suc i =
            pageSizes NotificationsFeed_onScroll p s (replicate n True) ! i + initialPageSize)"
proof -
  have rf: "\<And>i. i < n \<Longrightarrow> pageSizes ReactionsFeed_onScroll p s (replicate n True) ! Suc i =
            pageSizes ReactionsFeed_onScroll p s (replicate n True) ! i + initialPageSize"
    using ReactionsFeed_pageSizes_step [of _ "replicate n True" p s] by simp
  have nf: "\<And>i. i < n \<Longrightarrow> pageSizes NotificationsFeed_onScroll p s (replicate n True) ! Suc i =
            pageSizes NotificationsFeed_onScroll p s (replicate n True) ! i + initialPageSize"
    using NotificationsFeed_pageSizes_step [of _ "replicate n True" p s] by simp
  have "sorted (pageSizes ReactionsFeed_onScroll p s (replicate n True))"
    by (simp add: sorted_iff_nth_Suc pageSizes_length rf)
  moreover have "sorted (pageSizes NotificationsFeed_onScroll p s (replicate n True))"
    by (simp add: sorted_iff_nth_Suc pageSizes_length nf)
  ultimately show ?thesis using rf nf by blast
qed

theorem pageSize_growth_exact_witness:
  "pageSizes ReactionsFeed_onScroll anonymous ReactionsFeed_initial (replicate 3 True) =
     [10, 20, 30, 40] \<and>
   pageSizes ReactionsFeed_onScroll anonymous ReactionsFeed_initial (replicate 3 True) ! Suc 2 =
   pageSizes ReactionsFeed_onScroll anonymous ReactionsFeed_initial (replicate 3 True) ! 2 +
     initialPageSize"
  using pageSize_growth_exact [of anonymous ReactionsFeed_initial 3]
  by (simp add: numeral_3_eq_3 ReactionsFeed_onScroll_def ReactionsFeed_initial_def
      initialPageSize_def)




subsection \<open>Loading\<close>

text \<open>In ReactionsFeed a load whose query resolves to no note sets the notes to the
  empty list and calls the pool not at all: the calls stand under
  \<^verbatim>\<open>if (notes.length > 0)\<close>.\<close>

lemma ReactionsFeed_loadNotes_zero_items:
  assumes "database (fst r) = Some db" and "truthy (publicKey (fst r))"
    and "getReactedNotes db (nullish (publicKey (fst r)) '''') (pageSize (snd r)) = Resolved []"
  shows "ReactionsFeed_loadNotes r s = (s\<lparr>notes_state := []\<rparr>, [])"
  using assms by (simp add: ReactionsFeed_loadNotes_def)

text \<open>
  Claim C1. A load whose query returns no item sets the items to the empty list and issues
  no enrichment subscription. NotificationsFeed has no test of the length: with a
  database that holds no mention of the viewer, its \<open>loadNotes\<close> sets the notes to the
  empty list and still subscribes \<^verbatim>\<open>mentions-answers\<close>, with an empty \<^verbatim>\<open>#e\<close> list and
  an empty \<^verbatim>\<open>authors\<close> list.
\<close>

theorem NotificationsFeed_loadNotes_zero_items:
  "NotificationsFeed_loadNotes (viewer [], NotificationsFeed_initial) NotificationsFeed_initial =
     (\<lparr>notes_state = [], pageSize = 10, refreshing = False\<rparr>,
      [Subscribe ''mentions-answers''
         [(filter_of_kinds [EventKind_reaction])\<lparr>tag_e := Some []\<rparr>,
          (filter_of_kinds [EventKind_meta])\<lparr>authors := Some []\<rparr>]])"
  by (simp add: NotificationsFeed_loadNotes_def viewer_def store_of_def truthy_def nullish_def
      NotificationsFeed_initial_def initialPageSize_def pool_call_opt_def)

text \<open>
  Claim C2, as amended. A load of ReactionsFeed issues at most four subscriptions. When
  the pool is there, the query resolves to at least one note and the two timestamp
  queries resolve, it issues \<^verbatim>\<open>homepage-contacts-meta\<close>, \<^verbatim>\<open>homepage-contacts-reactions\<close>
  and \<^verbatim>\<open>homepage-contacts-replies\<close>, and a fourth, \<^verbatim>\<open>homepage-contacts-repost\<close>, if and
  only if some note has a non-empty \<^verbatim>\<open>repost_id\<close>. A load of NotificationsFeed issues
  nothing or the one subscription \<^verbatim>\<open>mentions-answers\<close>, whatever the notes refer to.
\<close>

theorem load_enrichment_subscriptions:
  assumes "database (fst r) = Some db" and "truthy (publicKey (fst r))" and "relayPool (fst r)"
    and "getReactedNotes db (nullish (publicKey (fst r)) '''') (pageSize (snd r)) = Resolved ns"
    and "0 < length ns"
    and "getLastReaction db (map (\<lambda>n. nullish (id_note n) '''') ns) = Resolved lastReaction"
    and "getLastReply db (map (\<lambda>n. nullish (id_note n) '''') ns) = Resolved lastReply"
  shows "length (issued (snd (ReactionsFeed_loadNotes r s))) \<le> 4 \<and>
     issued (snd (ReactionsFeed_loadNotes r s)) =
       [''homepage-contacts-meta'', ''homepage-contacts-reactions'',
        ''homepage-contacts-replies''] @
       (if \<exists>n\<in>set ns. truthy (repost_id n) then [''homepage-contacts-repost''] else []) \<and>
     (''homepage-contacts-repost'' \<in> set (issued (snd (ReactionsFeed_loadNotes r s))) \<longleftrightarrow>
        (\<exists>n\<in>set ns. truthy (repost_id n))) \<and>
     (issued (snd (NotificationsFeed_loadNotes r' s')) = [] \<or>
      issued (snd (NotificationsFeed_loadNotes r' s')) = [''mentions-answers''])"
proof -
  have eq: "snd (ReactionsFeed_loadNotes r s) = ReactionsFeed_enrich (fst r) db ns"
    using assms by (simp add: ReactionsFeed_loadNotes_def)
  have iss: "issued (snd (ReactionsFeed_loadNotes r s)) =
       [''homepage-contacts-meta'', ''homepage-contacts-reactions'',
        ''homepage-contacts-replies''] @
       (if \<exists>n\<in>set ns. truthy (repost_id n) then [''homepage-contacts-repost''] else [])"
    unfolding eq using assms(3,6,7) by (rule ReactionsFeed_enrich_issued)
  have mem: "''homepage-contacts-repost'' \<in> set (issued (snd (ReactionsFeed_loadNotes r s))) \<longleftrightarrow>
        (\<exists>n\<in>set ns. truthy (repost_id n))"
    unfolding iss by simp
  show ?thesis
    using ReactionsFeed_loadNotes_issued_le [of r s] iss mem
      NotificationsFeed_loadNotes_issued [of r' s'] by blast
qed

theorem load_enrichment_subscriptions_witness:
  "issued (snd (ReactionsFeed_loadNotes
        (viewer [note_of ''n1'' ''B'' None], ReactionsFeed_initial) ReactionsFeed_initial)) =
     [''homepage-contacts-meta'', ''homepage-contacts-reactions'', ''homepage-contacts-replies''] \<and>
   ''homepage-contacts-repost'' \<notin> set (issued (snd (ReactionsFeed_loadNotes
        (viewer [note_of ''n1'' ''B'' None], ReactionsFeed_initial) ReactionsFeed_initial)))"
  using load_enrichment_subscriptions
    [of "(viewer [note_of ''n1'' ''B'' None], ReactionsFeed_initial)"
      "store_of [note_of ''n1'' ''B'' None]" "[note_of ''n1'' ''B'' None]" None None
      ReactionsFeed_initial]
  by (simp add: concrete_defs)

text \<open>Against C2 as stated: one note that reposts another gives four subscriptions.\<close>

theorem load_four_subscriptions:
  "\<not> length (issued (snd (ReactionsFeed_loadNotes
        (viewer [note_of ''n1'' ''B'' (Some ''n0'')], ReactionsFeed_initial)
        ReactionsFeed_initial))) \<le> 3"
  by (simp add: ReactionsFeed_loadNotes_def ReactionsFeed_enrich_def concrete_defs)

text \<open>
  Claim C4, as amended. \<open>loadNotes\<close> of ReactionsFeed never changes \<open>refreshing\<close> (that
  feed resets it in \<open>subscribeNotes\<close>). \<open>loadNotes\<close> of NotificationsFeed sets
  \<open>refreshing\<close> to false, together with the notes, whenever the database and the public
  key are there and the query resolves, whatever the number of notes. When the query
  rejects, or the database or the public key is absent, a load of either feed changes
  nothing and calls nothing: \<open>refreshing\<close> keeps its value.
\<close>

theorem load_resets_loading:
  "refreshing (fst (ReactionsFeed_loadNotes r s)) = refreshing s \<and>
   (database (fst r) = Some db \<and> truthy (publicKey (fst r)) \<and>
    getMentionNotes db (nullish (publicKey (fst r)) '''') (pageSize (snd r)) = Resolved ns \<longrightarrow>
      fst (NotificationsFeed_loadNotes r s) = s\<lparr>notes_state := ns, refreshing := False\<rparr>) \<and>
   (database (fst r) = Some db \<and>
    getMentionNotes db (nullish (publicKey (fst r)) '''') (pageSize (snd r)) = Rejected \<longrightarrow>
      NotificationsFeed_loadNotes r s = (s, [])) \<and>
   (database (fst r) = Some db \<and>
    getReactedNotes db (nullish (publicKey (fst r)) '''') (pageSize (snd r)) = Rejected \<longrightarrow>
      ReactionsFeed_loadNotes r s = (s, [])) \<and>
   (database (fst r) = None \<or> \<not> truthy (publicKey (fst r)) \<longrightarrow>
      NotificationsFeed_loadNotes r s = (s, []) \<and> ReactionsFeed_loadNotes r s = (s, []))"
  by (auto simp add: ReactionsFeed_loadNotes_def NotificationsFeed_loadNotes_def
      split: option.splits promise.splits)

theorem load_resets_loading_witness:
  "fst (NotificationsFeed_loadNotes (viewer [], NotificationsFeed_initial) NotificationsFeed_initial) =
     NotificationsFeed_initial\<lparr>notes_state := [], refreshing := False\<rparr> \<and>
   NotificationsFeed_loadNotes (anonymous, NotificationsFeed_initial) NotificationsFeed_initial =
     (NotificationsFeed_initial, []) \<and>
   NotificationsFeed_loadNotes (viewer_failing, NotificationsFeed_initial) NotificationsFeed_initial =
     (NotificationsFeed_initial, []) \<and>
   ReactionsFeed_loadNotes (viewer_failing, ReactionsFeed_initial) ReactionsFeed_initial =
     (ReactionsFeed_initial, [])"
  using load_resets_loading
    [of "(viewer [], NotificationsFeed_initial)" NotificationsFeed_initial "store_of []" "[]"]
    load_resets_loading
    [of "(anonymous, NotificationsFeed_initial)" NotificationsFeed_initial "store_of []" "[]"]
    load_resets_loading
    [of "(viewer_failing, NotificationsFeed_initial)" NotificationsFeed_initial failing_store "[]"]
    load_resets_loading
    [of "(viewer_failing, ReactionsFeed_initial)" ReactionsFeed_initial failing_store "[]"]
  by (simp add: concrete_defs)

text \<open>Against C4 as stated: a load of ReactionsFeed that finds \<open>refreshing\<close> true leaves
  it true.\<close>

theorem load_keeps_loading_in_ReactionsFeed:
  "refreshing (fst (ReactionsFeed_loadNotes (viewer [], ReactionsFeed_initial)
      (ReactionsFeed_initial\<lparr>refreshing := True\<rparr>)))"
  by (simp add: ReactionsFeed_loadNotes_def concrete_defs)

text \<open>
  Claim C6, as amended. When a load of ReactionsFeed returns at least one note (and the
  pool is there), the \<^verbatim>\<open>authors\<close> of its \<^verbatim>\<open>homepage-contacts-meta\<close> subscription is the
  list of the notes' \<^verbatim>\<open>pubkey\<close>, one entry per note in the order of the notes, with an
  absent \<^verbatim>\<open>pubkey\<close> sent as the empty string; nothing removes a repeated author, so only
  as a set is it the set of the notes' authors. NotificationsFeed sends the notes'
  \<^verbatim>\<open>pubkey\<close> the same way, repeats included, under \<^verbatim>\<open>mentions-answers\<close>.
\<close>

theorem metadata_authors:
  assumes "database (fst r) = Some db" and "truthy (publicKey (fst r))" and "relayPool (fst r)"
    and "getReactedNotes db (nullish (publicKey (fst r)) '''') (pageSize (snd r)) = Resolved ns"
    and "0 < length ns"
    and "getMentionNotes db (nullish (publicKey (fst r)) '''') (pageSize (snd r)) = Resolved ms"
  shows "authors_issued ''homepage-contacts-meta'' (snd (ReactionsFeed_loadNotes r s)) =
       map (\<lambda>n. Some (nullish (pubkey n) '''')) ns \<and>
     set (authors_issued ''homepage-contacts-meta'' (snd (ReactionsFeed_loadNotes r s))) =
       (\<lambda>n. Some (nullish (pubkey n) '''')) ` set ns \<and>
     authors_issued ''mentions-answers'' (snd (NotificationsFeed_loadNotes r s)) = map pubkey ms"
proof -
  have eq: "snd (ReactionsFeed_loadNotes r s) = ReactionsFeed_enrich (fst r) db ns"
    using assms by (simp add: ReactionsFeed_loadNotes_def)
  have rf: "authors_issued ''homepage-contacts-meta'' (snd (ReactionsFeed_loadNotes r s)) =
       map (\<lambda>n. Some (nullish (pubkey n) '''')) ns"
    unfolding eq using assms(3) by (rule ReactionsFeed_enrich_authors)
  have nf: "authors_issued ''mentions-answers'' (snd (NotificationsFeed_loadNotes r s)) =
       map pubkey ms"
    using assms
    by (simp add: NotificationsFeed_loadNotes_def pool_call_opt_def filter_of_kinds_def
        nullish_def)
  show ?thesis using rf nf by simp
qed

theorem metadata_authors_witness:
  "authors_issued ''homepage-contacts-meta''
     (snd (ReactionsFeed_loadNotes
        (viewer [note_of ''n1'' ''B'' None, note_of ''n2'' ''C'' None], ReactionsFeed_initial)
        ReactionsFeed_initial)) = [Some ''B'', Some ''C''] \<and>
   authors_issued ''mentions-answers''
     (snd (NotificationsFeed_loadNotes
        (viewer [note_of ''n1'' ''B'' None, note_of ''n2'' ''C'' None], ReactionsFeed_initial)
        ReactionsFeed_initial)) = [Some ''B'', Some ''C'']"
  using metadata_authors
    [of "(viewer [note_of ''n1'' ''B'' None, note_of ''n2'' ''C'' None], ReactionsFeed_initial)"
      "store_of [note_of ''n1'' ''B'' None, note_of ''n2'' ''C'' None]"
      "[note_of ''n1'' ''B'' None, note_of ''n2'' ''C'' None]"
      "[note_of ''n1'' ''B'' None, note_of ''n2'' ''C'' None]" ReactionsFeed_initial]
  by (simp add: concrete_defs)

text \<open>Against C6 as stated: two notes of one author put that author twice into the
  subscription.\<close>

theorem metadata_authors_repeat:
  "\<not> distinct (authors_issued ''homepage-contacts-meta''
     (snd (ReactionsFeed_loadNotes
        (viewer [note_of ''n1'' ''B'' None, note_of ''n2'' ''B'' None], ReactionsFeed_initial)
        ReactionsFeed_initial)))"
  by (simp add: ReactionsFeed_loadNotes_def ReactionsFeed_enrich_def filter_of_kinds_def
      concrete_defs)

subsection \<open>Refresh\<close>

text \<open>The callback of ReactionsFeed at work after the page has grown to 20: it still
  holds the render of the mount, where \<open>pageSize\<close> is 10, and reissues with that limit.\<close>

lemma ReactionsFeed_onRefresh_mount_limit:
  "ReactionsFeed_onRefresh (viewer [], ReactionsFeed_initial)
       (ReactionsFeed_initial\<lparr>pageSize := 20\<rparr>) =
     (ReactionsFeed_initial\<lparr>pageSize := 20\<rparr>,
      [Unsubscribe ReactionsFeed_channels,
       Subscribe ''homepage-contacts-main''
         [(filter_of_kinds [Kind_Reaction])\<lparr>authors := Some [Some ''A''], limit := Some 10\<rparr>]])"
  by (simp add: ReactionsFeed_onRefresh_eq concrete_defs)

text \<open>
  Claim C5, as amended. Every \<open>onRefresh\<close> first sets \<open>refreshing\<close> to true and leaves
  \<open>pageSize\<close> and the notes as they are. In ReactionsFeed it then retires the five
  \<^verbatim>\<open>homepage-contacts-*\<close> names, the primary one among them, and, when the database and
  the public key are there, reissues \<^verbatim>\<open>homepage-contacts-main\<close> and sets \<open>refreshing\<close>
  back to false in the same call, so the call ends with \<open>refreshing\<close> false; without
  them it ends with \<open>refreshing\<close> true and nothing reissued. In NotificationsFeed it
  retires every subscription of the pool with \<^verbatim>\<open>unsubscribeAll\<close> and reissues
  \<^verbatim>\<open>mentions-user\<close>; \<open>refreshing\<close> is true when the handler returns, until the load it
  schedules resolves. (Here \<open>r\<close> is the render the callback holds.)
\<close>

theorem refresh_retires_and_reissues:
  "pageSize (fst (ReactionsFeed_onRefresh r s)) = pageSize s \<and>
   notes_state (fst (ReactionsFeed_onRefresh r s)) = notes_state s \<and>
   ''homepage-contacts-main'' \<in> set ReactionsFeed_channels \<and>
   (relayPool (fst r) \<and> database (fst r) \<noteq> None \<and> truthy (publicKey (fst r)) \<longrightarrow>
      (\<exists>fs. ReactionsFeed_onRefresh r s =
         (s\<lparr>refreshing := False\<rparr>,
          [Unsubscribe ReactionsFeed_channels, Subscribe ''homepage-contacts-main'' fs]))) \<and>
   (relayPool (fst r) \<and> (database (fst r) = None \<or> \<not> truthy (publicKey (fst r))) \<longrightarrow>
      ReactionsFeed_onRefresh r s =
        (s\<lparr>refreshing := True\<rparr>, [Unsubscribe ReactionsFeed_channels])) \<and>
   fst (NotificationsFeed_onRefresh_sync r s) = s\<lparr>refreshing := True\<rparr> \<and>
   (relayPool (fst r) \<and> database (fst r) \<noteq> None \<and> truthy (publicKey (fst r)) \<longrightarrow>
      (\<exists>fs. snd (NotificationsFeed_onRefresh_sync r s) =
         [UnsubscribeAll, Subscribe ''mentions-user'' fs])) \<and>
   pageSize (fst (NotificationsFeed_onRefresh r s)) = pageSize s"
proof -
  have a: "pageSize (fst (ReactionsFeed_onRefresh r s)) = pageSize s \<and>
      notes_state (fst (ReactionsFeed_onRefresh r s)) = notes_state s"
    by (simp add: ReactionsFeed_onRefresh_eq)
  have b: "''homepage-contacts-main'' \<in> set ReactionsFeed_channels"
    by (simp add: ReactionsFeed_channels_def)
  have c: "relayPool (fst r) \<and> database (fst r) \<noteq> None \<and> truthy (publicKey (fst r)) \<longrightarrow>
      (\<exists>fs. ReactionsFeed_onRefresh r s =
         (s\<lparr>refreshing := False\<rparr>,
          [Unsubscribe ReactionsFeed_channels, Subscribe ''homepage-contacts-main'' fs]))"
    by (auto simp add: ReactionsFeed_onRefresh_eq pool_call_opt_def)
  have d: "relayPool (fst r) \<and> (database (fst r) = None \<or> \<not> truthy (publicKey (fst r))) \<longrightarrow>
      ReactionsFeed_onRefresh r s =
        (s\<lparr>refreshing := True\<rparr>, [Unsubscribe ReactionsFeed_channels])"
    by (auto simp add: ReactionsFeed_onRefresh_eq pool_call_opt_def)
  have e: "fst (NotificationsFeed_onRefresh_sync r s) = s\<lparr>refreshing := True\<rparr>"
    by (simp add: NotificationsFeed_onRefresh_sync_eq)
  have f: "relayPool (fst r) \<and> database (fst r) \<noteq> None \<and> truthy (publicKey (fst r)) \<longrightarrow>
      (\<exists>fs. snd (NotificationsFeed_onRefresh_sync r s) =
         [UnsubscribeAll, Subscribe ''mentions-user'' fs])"
    by (auto simp add: NotificationsFeed_onRefresh_sync_eq pool_call_opt_def)
  have g: "pageSize (fst (NotificationsFeed_onRefresh r s)) = pageSize s"
    by (simp add: NotificationsFeed_onRefresh_def and_then_eq [of "NotificationsFeed_onRefresh_sync r"]
        NotificationsFeed_loadNotes_pageSize e)
  from a b c d e f g show ?thesis by blast
qed

theorem refresh_retires_and_reissues_witness:
  "fst (NotificationsFeed_onRefresh_sync (viewer [], NotificationsFeed_initial)
        (NotificationsFeed_initial\<lparr>pageSize := 20, refreshing := False\<rparr>)) =
     NotificationsFeed_initial\<lparr>pageSize := 20, refreshing := True\<rparr> \<and>
   (\<exists>fs. snd (NotificationsFeed_onRefresh_sync (viewer [], NotificationsFeed_initial)
        (NotificationsFeed_initial\<lparr>pageSize := 20, refreshing := False\<rparr>)) =
      [UnsubscribeAll, Subscribe ''mentions-user'' fs]) \<and>
   (\<exists>fs. ReactionsFeed_onRefresh (viewer [], ReactionsFeed_initial)
        (ReactionsFeed_initial\<lparr>pageSize := 20\<rparr>) =
      (ReactionsFeed_initial\<lparr>pageSize := 20\<rparr>,
       [Unsubscribe ReactionsFeed_channels, Subscribe ''homepage-contacts-main'' fs])) \<and>
   ReactionsFeed_onRefresh (anonymous, ReactionsFeed_initial) ReactionsFeed_initial =
     (ReactionsFeed_initial\<lparr>refreshing := True\<rparr>, [Unsubscribe ReactionsFeed_channels])"
  using refresh_retires_and_reissues
    [of "(viewer [], NotificationsFeed_initial)"
      "NotificationsFeed_initial\<lparr>pageSize := 20, refreshing := False\<rparr>"]
    refresh_retires_and_reissues
    [of "(viewer [], ReactionsFeed_initial)" "ReactionsFeed_initial\<lparr>pageSize := 20\<rparr>"]
    refresh_retires_and_reissues [of "(anonymous, ReactionsFeed_initial)" ReactionsFeed_initial]
  by (simp add: concrete_defs)

text \<open>Against C5 as stated: after a refresh of ReactionsFeed with the database, the key
  and the pool there, \<open>refreshing\<close> is false.\<close>

theorem refresh_ends_not_loading_in_ReactionsFeed:
  "\<not> refreshing (fst (ReactionsFeed_onRefresh (viewer [], ReactionsFeed_initial)
       ReactionsFeed_initial))"
  by (simp add: ReactionsFeed_onRefresh_eq concrete_defs)

subsection \<open>Discipline on the shared pool\<close>

text \<open>
  Claim C7, as amended. On a refresh, in both feeds, and on page growth in
  NotificationsFeed, the call that retires the primary channel comes before the call
  that reissues it, whatever was live before. On page growth in ReactionsFeed the
  primary channel is reissued under the same name with no retiring call before it: that
  no two subscriptions of that name are live then rests on the pool replacing a
  subscription by a new one of the same name.
\<close>

theorem refresh_retires_before_reissue:
  "retired_before_reissue ''homepage-contacts-main'' live (snd (ReactionsFeed_onRefresh r s)) \<and>
   retired_before_reissue ''mentions-user'' live (snd (NotificationsFeed_onRefresh r s)) \<and>
   retired_before_reissue ''mentions-user'' live (snd (NotificationsFeed_onPageGrowthTrigger p s)) \<and>
   (database p \<noteq> None \<and> truthy (publicKey p) \<and> relayPool p \<and> 0 < pageSize s \<longrightarrow>
      \<not> retired_before_reissue ''homepage-contacts-main'' True
           (snd (ReactionsFeed_onPageGrowthTrigger p s)))"
proof -
  have a: "retired_before_reissue ''homepage-contacts-main'' live
      (snd (ReactionsFeed_onRefresh r s))"
    by (simp add: ReactionsFeed_onRefresh_eq pool_call_opt_def ReactionsFeed_channels_def)
  have b: "retired_before_reissue ''mentions-user'' live (snd (NotificationsFeed_onRefresh r s))"
    using NotificationsFeed_loadNotes_primary
    by (simp add: NotificationsFeed_onRefresh_def and_then_eq [of "NotificationsFeed_onRefresh_sync r"]
        NotificationsFeed_onRefresh_sync_eq pool_call_opt_def)
  have c: "retired_before_reissue ''mentions-user'' live
      (snd (NotificationsFeed_onPageGrowthTrigger p s))"
    using NotificationsFeed_loadNotes_primary
    by (simp add: NotificationsFeed_onPageGrowthTrigger_def NotificationsFeed_onScroll_def
        NotificationsFeed_useEffect_pageSize_def NotificationsFeed_subscribeNotes_def
        and_then_eq pool_call_opt_def Let_def)
  have d: "database p \<noteq> None \<and> truthy (publicKey p) \<and> relayPool p \<and> 0 < pageSize s \<longrightarrow>
      \<not> retired_before_reissue ''homepage-contacts-main'' True
           (snd (ReactionsFeed_onPageGrowthTrigger p s))"
    by (simp add: ReactionsFeed_growth)
  from a b c d show ?thesis by blast
qed

theorem refresh_retires_before_reissue_witness:
  "retired_before_reissue ''homepage-contacts-main'' True
     (snd (ReactionsFeed_onRefresh (viewer [], ReactionsFeed_initial) ReactionsFeed_initial)) \<and>
   snd (ReactionsFeed_onRefresh (viewer [], ReactionsFeed_initial) ReactionsFeed_initial) =
     [Unsubscribe ReactionsFeed_channels,
      Subscribe ''homepage-contacts-main''
        [(filter_of_kinds [Kind_Reaction])\<lparr>authors := Some [Some ''A''], limit := Some 10\<rparr>]] \<and>
   \<not> retired_before_reissue ''homepage-contacts-main'' True
       (snd (ReactionsFeed_onPageGrowthTrigger (viewer []) ReactionsFeed_initial))"
  using refresh_retires_before_reissue
    [of True "(viewer [], ReactionsFeed_initial)" ReactionsFeed_initial "viewer []"]
  by (simp add: ReactionsFeed_onRefresh_eq concrete_defs)

text \<open>Against C7 as stated: the mount of ReactionsFeed issues the primary channel, and
  the first page growth issues it again with nothing retired in between.\<close>

theorem page_growth_reissues_without_retiring:
  "\<not> retired_before_reissue ''homepage-contacts-main'' False
      (snd (ReactionsFeed_useEffect_mount (viewer [], ReactionsFeed_initial) ReactionsFeed_initial) @
       snd (ReactionsFeed_onPageGrowthTrigger (viewer []) ReactionsFeed_initial))"
  by (simp add: ReactionsFeed_useEffect_mount_def ReactionsFeed_unsubscribe_def
      ReactionsFeed_subscribeNotes_def ReactionsFeed_loadNotes_def and_then_eq
      ReactionsFeed_onPageGrowthTrigger_def ReactionsFeed_onScroll_def
      ReactionsFeed_useEffect_pageSize_def ReactionsFeed_channels_def concrete_defs)




subsection \<open>Absent identifiers\<close>




end
